theory Spec2Isabelle
  imports Complex_Main "HOL-Library.Word"
begin

unbundle bit_operations_syntax

text \<open>
  The program (\<^verbatim>\<open>main.cpp\<close>) is a window in which the user drags the mouse to draw a
  filled ellipse with Direct2D. This theory embeds its window procedure and handlers,
  the arithmetic they compute with, and the platform calls they make, and settles the
  claims of the specification against them.
\<close>

section \<open>Single-precision arithmetic\<close>

text \<open>
  The program computes with C++ \<^verbatim>\<open>float\<close> (IEEE 754 binary32, round to nearest, ties to
  even). A value is a rational, negative zero, an infinity or a NaN. \<open>Fin 0\<close> is the
  positive zero. Results of arithmetic are always rounded by \<open>round32\<close>, so every value
  the program computes is a binary32 number.
\<close>

datatype f32 = Fin rat | NegZero | PInf | NInf | NaN

definition pow2 :: "int \<Rightarrow> rat" where
  "pow2 e = (if 0 \<le> e then 2 ^ nat e else 1 / 2 ^ nat (- e))"

text \<open>Rounding a rational to the nearest integer, a tie going to the even neighbour.\<close>

definition rne :: "rat \<Rightarrow> int" where
  "rne q = (let f = \<lfloor>q\<rfloor>; d = q - of_int f
            in if d < 1 / 2 then f else if 1 / 2 < d then f + 1
               else if even f then f else f + 1)"

text \<open>
  The exponent of the binade that holds \<open>q\<close>: the largest \<open>e \<le> e0\<close> with
  \<open>2 ^ e \<le> \<bar>q\<bar>\<close>, and \<open>- 126\<close> (the subnormal range) when there is none above it.
\<close>

function binade :: "int \<Rightarrow> rat \<Rightarrow> int" where
  "binade e q =
     (if e \<le> - 126 then - 126 else if pow2 e \<le> \<bar>q\<bar> then e else binade (e - 1) q)"
  by pat_completeness auto
termination
  by (relation "measure (\<lambda>(e, q). nat (e + 126))") auto

declare binade.simps [simp del]

text \<open>
  Rounding to binary32: 24 significant bits, so the spacing in the binade of exponent
  \<open>e\<close> is \<open>2 ^ (e - 23)\<close>; a result of magnitude \<open>2 ^ 128\<close> or more is an infinity, and
  a negative number that rounds to zero is the negative zero.
\<close>

definition round32 :: "rat \<Rightarrow> f32" where
  "round32 q =
     (let u = pow2 (binade 127 q - 23); r = of_int (rne (q / u)) * u
      in if pow2 128 \<le> r then PInf
         else if r \<le> - pow2 128 then NInf
         else if r = 0 \<and> q < 0 then NegZero
         else Fin r)"

text \<open>\<^verbatim>\<open>static_cast<float>\<close> of an \<^verbatim>\<open>int\<close> and of a \<^verbatim>\<open>UINT\<close>.\<close>

definition int_to_float :: "int \<Rightarrow> f32" where
  "int_to_float i = round32 (of_int i)"

definition uint_to_float :: "32 word \<Rightarrow> f32" where
  "uint_to_float u = round32 (of_nat (unat u))"

fun is_fin :: "f32 \<Rightarrow> bool" where
  "is_fin (Fin r) = True"
| "is_fin NegZero = True"
| "is_fin PInf = False"
| "is_fin NInf = False"
| "is_fin NaN = False"

fun fval :: "f32 \<Rightarrow> rat" where
  "fval (Fin r) = r"
| "fval NegZero = 0"
| "fval PInf = 0"
| "fval NInf = 0"
| "fval NaN = 0"

text \<open>The sign bit.\<close>

fun fsign :: "f32 \<Rightarrow> bool" where
  "fsign (Fin r) = (r < 0)"
| "fsign NegZero = True"
| "fsign PInf = False"
| "fsign NInf = True"
| "fsign NaN = False"

fun fneg :: "f32 \<Rightarrow> f32" where
  "fneg (Fin r) = (if r = 0 then NegZero else Fin (- r))"
| "fneg NegZero = Fin 0"
| "fneg PInf = NInf"
| "fneg NInf = PInf"
| "fneg NaN = NaN"

definition signed_zero :: "bool \<Rightarrow> f32" where
  "signed_zero neg = (if neg then NegZero else Fin 0)"

definition signed_inf :: "bool \<Rightarrow> f32" where
  "signed_inf neg = (if neg then NInf else PInf)"

text \<open>
  Addition: an exact zero sum is the positive zero unless both operands are negative
  zeros; opposite infinities give a NaN.
\<close>

definition fadd :: "f32 \<Rightarrow> f32 \<Rightarrow> f32" where
  "fadd a b =
     (if a = NaN \<or> b = NaN then NaN
      else if a = PInf then (if b = NInf then NaN else PInf)
      else if a = NInf then (if b = PInf then NaN else NInf)
      else if b = PInf then PInf
      else if b = NInf then NInf
      else let q = fval a + fval b
           in if q = 0 then signed_zero (a = NegZero \<and> b = NegZero) else round32 q)"

definition fsub :: "f32 \<Rightarrow> f32 \<Rightarrow> f32" where
  "fsub a b = fadd a (fneg b)"

text \<open>
  Division: the sign of a zero or infinite quotient is the exclusive or of the operands'
  signs; \<open>0 / 0\<close> and \<open>\<infinity> / \<infinity>\<close> are NaN; a non-zero number divided by a zero is an
  infinity.
\<close>

definition fdiv :: "f32 \<Rightarrow> f32 \<Rightarrow> f32" where
  "fdiv a b =
     (if a = NaN \<or> b = NaN then NaN
      else if \<not> is_fin a then (if \<not> is_fin b then NaN else signed_inf (fsign a \<noteq> fsign b))
      else if \<not> is_fin b then signed_zero (fsign a \<noteq> fsign b)
      else if fval b = 0 then
        (if fval a = 0 then NaN else signed_inf (fsign a \<noteq> fsign b))
      else if fval a = 0 then signed_zero (fsign a \<noteq> fsign b)
      else round32 (fval a / fval b))"

text \<open>
  The comparisons \<^verbatim>\<open><=\<close>, \<^verbatim>\<open><\<close> and \<^verbatim>\<open>==\<close>: false whenever an operand is a NaN, and the two
  zeros are equal.
\<close>

definition fle :: "f32 \<Rightarrow> f32 \<Rightarrow> bool" where
  "fle a b \<longleftrightarrow> a \<noteq> NaN \<and> b \<noteq> NaN \<and>
     (a = NInf \<or> b = PInf \<or> (is_fin a \<and> is_fin b \<and> fval a \<le> fval b))"

definition flt :: "f32 \<Rightarrow> f32 \<Rightarrow> bool" where
  "flt a b \<longleftrightarrow> a \<noteq> NaN \<and> b \<noteq> NaN \<and> a \<noteq> PInf \<and> b \<noteq> NInf \<and>
     (a = NInf \<or> b = PInf \<or> fval a < fval b)"

definition feq :: "f32 \<Rightarrow> f32 \<Rightarrow> bool" where
  "feq a b \<longleftrightarrow> a \<noteq> NaN \<and> b \<noteq> NaN \<and>
     (a = b \<or> (is_fin a \<and> is_fin b \<and> fval a = fval b))"


section \<open>The Win32 and Direct2D interface the program uses\<close>

text \<open>
  Constants and macros of the platform headers (\<^verbatim>\<open>winerror.h\<close>, \<^verbatim>\<open>winuser.h\<close>,
  \<^verbatim>\<open>windowsx.h\<close>, \<^verbatim>\<open>d2derr.h\<close>), with their documented values.
\<close>

type_synonym HRESULT = "32 word"
type_synonym UINT = "32 word"
type_synonym DWORD = "32 word"
type_synonym WPARAM = "64 word"
type_synonym LPARAM = "64 word"
type_synonym LRESULT = "64 word"

definition SUCCEEDED :: "HRESULT \<Rightarrow> bool" where
  "SUCCEEDED hr \<longleftrightarrow> 0 \<le> sint hr"

definition FAILED :: "HRESULT \<Rightarrow> bool" where
  "FAILED hr \<longleftrightarrow> sint hr < 0"

definition S_OK :: HRESULT where "S_OK = 0"
definition E_FAIL :: HRESULT where "E_FAIL = 0x80004005"
definition D2DERR_RECREATE_TARGET :: HRESULT where "D2DERR_RECREATE_TARGET = 0x8899000C"

definition WM_CREATE :: UINT where "WM_CREATE = 0x0001"
definition WM_DESTROY :: UINT where "WM_DESTROY = 0x0002"
definition WM_SIZE :: UINT where "WM_SIZE = 0x0005"
definition WM_PAINT :: UINT where "WM_PAINT = 0x000F"
definition WM_KEYDOWN :: UINT where "WM_KEYDOWN = 0x0100"
definition WM_KEYUP :: UINT where "WM_KEYUP = 0x0101"
definition WM_CHAR :: UINT where "WM_CHAR = 0x0102"
definition WM_SYSKEYDOWN :: UINT where "WM_SYSKEYDOWN = 0x0104"
definition WM_SYSKEYUP :: UINT where "WM_SYSKEYUP = 0x0105"
definition WM_SYSCHAR :: UINT where "WM_SYSCHAR = 0x0106"
definition WM_MOUSEMOVE :: UINT where "WM_MOUSEMOVE = 0x0200"
definition WM_LBUTTONDOWN :: UINT where "WM_LBUTTONDOWN = 0x0201"
definition WM_LBUTTONUP :: UINT where "WM_LBUTTONUP = 0x0202"

definition MK_LBUTTON :: DWORD where "MK_LBUTTON = 0x0001"

text \<open>
  \<^verbatim>\<open>GET_X_LPARAM(lp) = (int)(short)LOWORD(lp)\<close> and
  \<^verbatim>\<open>GET_Y_LPARAM(lp) = (int)(short)HIWORD(lp)\<close>: the two low 16-bit halves, sign extended.
\<close>

definition GET_X_LPARAM :: "LPARAM \<Rightarrow> int" where
  "GET_X_LPARAM lp = sint (ucast lp :: 16 word)"

definition GET_Y_LPARAM :: "LPARAM \<Rightarrow> int" where
  "GET_Y_LPARAM lp = sint (ucast (drop_bit 16 lp) :: 16 word)"

text \<open>
  A COM interface pointer is \<open>None\<close> when it is \<^verbatim>\<open>NULL\<close> and \<open>Some a\<close> when it points to
  the object \<open>a\<close>. A creation function writes the new object through its out-parameter
  when it succeeds and \<^verbatim>\<open>NULL\<close> when it fails.
\<close>

type_synonym ptr = "nat option"

definition created :: "HRESULT \<Rightarrow> nat \<Rightarrow> ptr" where
  "created hr obj = (if SUCCEEDED hr then Some obj else None)"

record D2D1_POINT_2F =
  ptx :: f32
  pty :: f32

record D2D1_ELLIPSE =
  point :: D2D1_POINT_2F
  radiusX :: f32
  radiusY :: f32

text \<open>\<^verbatim>\<open>D2D1::Point2F()\<close> is the origin; \<^verbatim>\<open>D2D1::Ellipse\<close> fills the three fields.\<close>

definition Point2F :: "f32 \<Rightarrow> f32 \<Rightarrow> D2D1_POINT_2F" where
  "Point2F a b = \<lparr>ptx = a, pty = b\<rparr>"

definition Ellipse :: "D2D1_POINT_2F \<Rightarrow> f32 \<Rightarrow> f32 \<Rightarrow> D2D1_ELLIPSE" where
  "Ellipse c rx ry = \<lparr>point = c, radiusX = rx, radiusY = ry\<rparr>"

text \<open>
  The calls the program makes to the windowing system and to Direct2D, in the order it
  makes them. A method call carries the object it is invoked on; \<open>FillEllipse\<close> also
  carries the shape and the brush pointer it is given.
\<close>

datatype call =
    D2D1CreateFactory
  | GetDpiForWindow
  | GetClientRect
  | CreateHwndRenderTarget nat "32 word \<times> 32 word"
  | CreateSolidColorBrush nat
  | Release nat
  | BeginPaint
  | EndPaint
  | BeginDraw nat
  | Clear nat
  | FillEllipse nat D2D1_ELLIPSE ptr
  | EndDraw nat
  | ResizeTarget nat "32 word \<times> 32 word"
  | InvalidateRect
  | SetCapture
  | ReleaseCapture
  | PostQuitMessage
  | OutputDebugString string WPARAM
  | DefWindowProc UINT

text \<open>
  What the platform answers while one message is handled: the results of the creation
  calls and of \<^verbatim>\<open>EndDraw\<close>, the window's DPI, its client rectangle, and the result of the
  default window procedure.
\<close>

record host =
  factory_hr :: HRESULT
  factory_obj :: nat
  window_dpi :: UINT
  client_right :: "32 word"
  client_bottom :: "32 word"
  target_hr :: HRESULT
  target_obj :: nat
  brush_hr :: HRESULT
  brush_obj :: nat
  enddraw_hr :: HRESULT
  defproc_result :: LRESULT


section \<open>The program\<close>

text \<open>
  The fields of \<^verbatim>\<open>MainWindow\<close>, the two static members of \<^verbatim>\<open>DPIScale\<close>, and the calls made
  so far.
\<close>

record state =
  pFactory :: ptr
  pRenderTarget :: ptr
  pBrush :: ptr
  ellipse :: D2D1_ELLIPSE
  ptMouse :: D2D1_POINT_2F
  scaleX :: f32
  scaleY :: f32
  calls :: "call list"

datatype fault = NullDereference

definition emit :: "call \<Rightarrow> state \<Rightarrow> state" where
  "emit c s = s\<lparr>calls := calls s @ [c]\<rparr>"

text \<open>
  The constructor \<^verbatim>\<open>MainWindow()\<close> and the initialisers of \<^verbatim>\<open>DPIScale::scaleX\<close> and
  \<^verbatim>\<open>DPIScale::scaleY\<close>.
\<close>

definition initial :: state where
  "initial =
     \<lparr>pFactory = None, pRenderTarget = None, pBrush = None,
      ellipse = Ellipse (Point2F (Fin 0) (Fin 0)) (Fin 0) (Fin 0),
      ptMouse = Point2F (Fin 0) (Fin 0),
      scaleX = Fin 1, scaleY = Fin 1, calls = []\<rparr>"

text \<open>\<^verbatim>\<open>SafeRelease\<close>: the new value of the pointer and the calls it adds.\<close>

definition SafeRelease :: "ptr \<Rightarrow> ptr \<times> call list" where
  "SafeRelease p = (case p of None \<Rightarrow> (None, []) | Some a \<Rightarrow> (None, [Release a]))"

text \<open>\<^verbatim>\<open>DPIScale::Initialize\<close>.\<close>

definition Initialize :: "host \<Rightarrow> state \<Rightarrow> state" where
  "Initialize h s =
     (let dpiY = uint_to_float (window_dpi h);
          dpiX = dpiY;
          s1 = emit GetDpiForWindow s;
          s2 = s1\<lparr>scaleX := fdiv dpiX (Fin 96)\<rparr>
      in s2\<lparr>scaleY := fdiv dpiY (Fin 96)\<rparr>)"

text \<open>
  \<^verbatim>\<open>DPIScale::PixelsToDips\<close>, instantiated at \<^verbatim>\<open>int\<close>. The pixel coordinates are taken
  from all integers; those of a mouse message are 16-bit (see \<open>GET_X_LPARAM\<close>).
\<close>

definition PixelsToDips :: "state \<Rightarrow> int \<Rightarrow> int \<Rightarrow> D2D1_POINT_2F" where
  "PixelsToDips s px py =
     Point2F (fdiv (int_to_float px) (scaleX s)) (fdiv (int_to_float py) (scaleY s))"

definition CalculateLayout :: "state \<Rightarrow> state" where
  "CalculateLayout s = s"

definition CreateGraphicsResources :: "host \<Rightarrow> state \<Rightarrow> fault + (HRESULT \<times> state)" where
  "CreateGraphicsResources h s =
     (if pRenderTarget s = None then
        (let s1 = emit GetClientRect s;
             size = (client_right h, client_bottom h)
         in case pFactory s1 of
              None \<Rightarrow> Inl NullDereference
            | Some f \<Rightarrow>
                (let hr = target_hr h;
                     s2 = (emit (CreateHwndRenderTarget f size) s1)
                            \<lparr>pRenderTarget := created hr (target_obj h)\<rparr>
                 in if SUCCEEDED hr then
                      (case pRenderTarget s2 of
                         None \<Rightarrow> Inl NullDereference
                       | Some rt \<Rightarrow>
                           (let hr' = brush_hr h;
                                s3 = (emit (CreateSolidColorBrush rt) s2)
                                       \<lparr>pBrush := created hr' (brush_obj h)\<rparr>
                            in if SUCCEEDED hr' then Inr (hr', CalculateLayout s3)
                               else Inr (hr', s3)))
                    else Inr (hr, s2)))
      else Inr (S_OK, s))"

definition DiscardGraphicsResources :: "state \<Rightarrow> state" where
  "DiscardGraphicsResources s =
     (let (p1, c1) = SafeRelease (pRenderTarget s);
          s1 = s\<lparr>pRenderTarget := p1, calls := calls s @ c1\<rparr>;
          (p2, c2) = SafeRelease (pBrush s1)
      in s1\<lparr>pBrush := p2, calls := calls s1 @ c2\<rparr>)"

definition OnPaint :: "host \<Rightarrow> state \<Rightarrow> fault + state" where
  "OnPaint h s =
     (case CreateGraphicsResources h s of
        Inl e \<Rightarrow> Inl e
      | Inr (hr, s1) \<Rightarrow>
          if SUCCEEDED hr then
            (let s2 = emit BeginPaint s1
             in case pRenderTarget s2 of
                  None \<Rightarrow> Inl NullDereference
                | Some rt \<Rightarrow>
                    (let s3 = emit (BeginDraw rt) s2;
                         s4 = emit (Clear rt) s3;
                         s5 = emit (FillEllipse rt (ellipse s4) (pBrush s4)) s4;
                         s6 = emit (EndDraw rt) s5;
                         hr' = enddraw_hr h;
                         s7 = (if FAILED hr' \<or> hr' = D2DERR_RECREATE_TARGET
                               then DiscardGraphicsResources s6 else s6)
                     in Inr (emit EndPaint s7)))
          else Inr s1)"

definition Resize :: "host \<Rightarrow> state \<Rightarrow> state" where
  "Resize h s =
     (case pRenderTarget s of
        None \<Rightarrow> s
      | Some rt \<Rightarrow>
          (let s1 = emit GetClientRect s;
               size = (client_right h, client_bottom h);
               s2 = emit (ResizeTarget rt size) s1;
               s3 = CalculateLayout s2
           in emit InvalidateRect s3))"

definition OnLButtonDown :: "int \<Rightarrow> int \<Rightarrow> DWORD \<Rightarrow> state \<Rightarrow> state" where
  "OnLButtonDown pixelX pixelY flags s =
     (let s1 = emit SetCapture s;
          p = PixelsToDips s1 pixelX pixelY;
          s2 = s1\<lparr>ptMouse := p\<rparr>;
          s3 = s2\<lparr>ellipse := (ellipse s2)\<lparr>point := ptMouse s2\<rparr>\<rparr>;
          s4 = s3\<lparr>ellipse := (ellipse s3)\<lparr>radiusY := Fin 1\<rparr>\<rparr>;
          s5 = s4\<lparr>ellipse := (ellipse s4)\<lparr>radiusX := radiusY (ellipse s4)\<rparr>\<rparr>
      in emit InvalidateRect s5)"

definition OnMouseMove :: "int \<Rightarrow> int \<Rightarrow> DWORD \<Rightarrow> state \<Rightarrow> state" where
  "OnMouseMove pixelX pixelY flags s =
     (if flags AND MK_LBUTTON \<noteq> 0 then
        (let dips = PixelsToDips s pixelX pixelY;
             width = fdiv (fsub (ptx dips) (ptx (ptMouse s))) (int_to_float 2);
             height = fdiv (fsub (pty dips) (pty (ptMouse s))) (int_to_float 2);
             x1 = fadd (ptx (ptMouse s)) width;
             y1 = fadd (pty (ptMouse s)) height;
             s1 = s\<lparr>ellipse := Ellipse (Point2F x1 y1) width height\<rparr>
         in emit InvalidateRect s1)
      else s)"

definition OnLButtonUp :: "state \<Rightarrow> state" where
  "OnLButtonUp s = emit ReleaseCapture s"

text \<open>
  \<^verbatim>\<open>MainWindow::HandleMessage\<close>, the cases in the order of the \<^verbatim>\<open>switch\<close>. The keyboard
  cases write a line of debug output (recorded with its label and \<^verbatim>\<open>wParam\<close>) and fall out
  of the \<^verbatim>\<open>switch\<close> to the default window procedure, as every other message does.
\<close>

definition DefWindowProc_result :: "UINT \<Rightarrow> host \<Rightarrow> state \<Rightarrow> fault + (LRESULT \<times> state)" where
  "DefWindowProc_result uMsg h s = Inr (defproc_result h, emit (DefWindowProc uMsg) s)"

definition HandleMessage ::
  "UINT \<Rightarrow> WPARAM \<Rightarrow> LPARAM \<Rightarrow> host \<Rightarrow> state \<Rightarrow> fault + (LRESULT \<times> state)" where
  "HandleMessage uMsg wParam lParam h s =
     (if uMsg = WM_CREATE then
        (let s1 = (emit D2D1CreateFactory s)\<lparr>pFactory := created (factory_hr h) (factory_obj h)\<rparr>
         in if FAILED (factory_hr h) then Inr (- 1, s1)
            else Inr (0, Initialize h s1))
      else if uMsg = WM_LBUTTONDOWN then
        Inr (0, OnLButtonDown (GET_X_LPARAM lParam) (GET_Y_LPARAM lParam) (ucast wParam) s)
      else if uMsg = WM_LBUTTONUP then
        Inr (0, OnLButtonUp s)
      else if uMsg = WM_MOUSEMOVE then
        Inr (0, OnMouseMove (GET_X_LPARAM lParam) (GET_Y_LPARAM lParam) (ucast wParam) s)
      else if uMsg = WM_DESTROY then
        (let s1 = DiscardGraphicsResources s;
             (p, c) = SafeRelease (pFactory s1);
             s2 = s1\<lparr>pFactory := p, calls := calls s1 @ c\<rparr>
         in Inr (0, emit PostQuitMessage s2))
      else if uMsg = WM_PAINT then
        (case OnPaint h s of Inl e \<Rightarrow> Inl e | Inr s1 \<Rightarrow> Inr (0, s1))
      else if uMsg = WM_SIZE then
        Inr (0, Resize h s)
      else if uMsg = WM_SYSKEYDOWN then
        DefWindowProc_result uMsg h (emit (OutputDebugString ''WM_SYSKEYDOWN'' wParam) s)
      else if uMsg = WM_SYSCHAR then
        DefWindowProc_result uMsg h (emit (OutputDebugString ''WM_SYSCHAR'' wParam) s)
      else if uMsg = WM_SYSKEYUP then
        DefWindowProc_result uMsg h (emit (OutputDebugString ''WM_SYSKEYUP'' wParam) s)
      else if uMsg = WM_KEYDOWN then
        DefWindowProc_result uMsg h (emit (OutputDebugString ''WM_KEYDOWN'' wParam) s)
      else if uMsg = WM_KEYUP then
        DefWindowProc_result uMsg h (emit (OutputDebugString ''WM_KEYUP'' wParam) s)
      else if uMsg = WM_CHAR then
        DefWindowProc_result uMsg h (emit (OutputDebugString ''WM_CHAR'' wParam) s)
      else DefWindowProc_result uMsg h s)"

text \<open>
  Modelled from the spec: the window procedure of \<^verbatim>\<open>basewin.h\<close>, which hands every
  message of the window to \<open>HandleMessage\<close>, is not among the sources. The spec has one
  dispatch loop that receives the notifications one after the other and runs each
  handler to completion before the next; so the message loop of \<^verbatim>\<open>wWinMain\<close> is a fold of
  \<open>HandleMessage\<close> over the messages. A message comes with the answers the platform
  gives while it is handled. A fault ends the run.
\<close>

type_synonym message = "UINT \<times> WPARAM \<times> LPARAM \<times> host"

fun run :: "state \<Rightarrow> message list \<Rightarrow> fault + state" where
  "run s [] = Inr s"
| "run s ((uMsg, wParam, lParam, h) # ms) =
     (case HandleMessage uMsg wParam lParam h s of
        Inl e \<Rightarrow> Inl e
      | Inr (r, s1) \<Rightarrow> run s1 ms)"

text \<open>
  Whether the window holds the pointer capture, as far as the program's own calls decide
  it: \<^verbatim>\<open>SetCapture\<close> acquires it and \<^verbatim>\<open>ReleaseCapture\<close> gives it up.
\<close>

definition capture_step :: "call \<Rightarrow> bool \<Rightarrow> bool" where
  "capture_step c b = (if c = SetCapture then True else if c = ReleaseCapture then False else b)"

definition captured :: "state \<Rightarrow> bool" where
  "captured s = fold capture_step (calls s) False"

text \<open>Platform answers in which every call succeeds, at 96 DPI.\<close>

definition all_ok :: host where
  "all_ok =
     \<lparr>factory_hr = S_OK, factory_obj = 1, window_dpi = 96,
      client_right = 640, client_bottom = 480,
      target_hr = S_OK, target_obj = 2, brush_hr = S_OK, brush_obj = 3,
      enddraw_hr = S_OK, defproc_result = 0\<rparr>"

text \<open>The same, except that the brush cannot be created.\<close>

definition brush_fails :: host where
  "brush_fails = all_ok\<lparr>brush_hr := E_FAIL\<rparr>"

text \<open>The same, except that \<^verbatim>\<open>EndDraw\<close> reports a lost device.\<close>

definition device_lost :: host where
  "device_lost = all_ok\<lparr>enddraw_hr := D2DERR_RECREATE_TARGET\<rparr>"

text \<open>The window after a successful \<^verbatim>\<open>WM_CREATE\<close> at 96 DPI.\<close>

definition created_window :: state where
  "created_window =
     initial\<lparr>pFactory := Some 1, calls := [D2D1CreateFactory, GetDpiForWindow]\<rparr>"

text \<open>The \<^verbatim>\<open>lParam\<close> of a mouse message at the client position \<open>(x, y)\<close>: \<^verbatim>\<open>MAKELPARAM(x, y)\<close>.\<close>

definition MAKELPARAM :: "16 word \<Rightarrow> 16 word \<Rightarrow> LPARAM" where
  "MAKELPARAM lo hi = ucast lo OR push_bit 16 (ucast hi)"


section \<open>Properties of the arithmetic\<close>

subsection \<open>Rounding\<close>

lemma pow2_pos: "0 < pow2 e"
  by (simp add: pow2_def)

lemma pow2_nonpos_exp: "e \<le> 0 \<Longrightarrow> pow2 e = 1 / 2 ^ nat (- e)"
  by (cases "e = 0") (simp_all add: pow2_def)

lemma pow2_mono: "a \<le> b \<Longrightarrow> pow2 a \<le> pow2 b"
proof -
  have eq: "pow2 e = 2 powi e" for e
    by (simp add: pow2_def power_int_def inverse_eq_divide power_one_over)
  assume "a \<le> b"
  then show ?thesis
    unfolding eq by (intro power_int_increasing) simp_all
qed

lemma rne_of_int: "rne (of_int k) = k"
  by (simp add: rne_def)

lemma rne_nonneg: "0 \<le> q \<Longrightarrow> 0 \<le> rne q"
  by (auto simp: rne_def Let_def)

lemma rne_nonpos:
  assumes "q \<le> 0"
  shows "rne q \<le> 0"
proof (cases "\<lfloor>q\<rfloor> = 0")
  case True
  then have "0 \<le> q" by (simp add: floor_eq_iff)
  with assms have "q = 0" by simp
  then show ?thesis by (simp add: rne_def)
next
  case False
  have "\<lfloor>q\<rfloor> \<le> \<lfloor>0 :: rat\<rfloor>" using assms by (rule floor_mono)
  then have "\<lfloor>q\<rfloor> \<le> 0" by (simp only: floor_zero)
  with False have "\<lfloor>q\<rfloor> + 1 \<le> 0" by linarith
  then show ?thesis by (simp add: rne_def Let_def)
qed

lemma round32_not_NaN: "round32 q \<noteq> NaN"
  by (simp add: round32_def Let_def)

text \<open>
  Rounding keeps the sign: a number that is not negative rounds to a value that is not
  negative, and the other way round.
\<close>

lemma round32_nonneg:
  assumes "0 \<le> q"
  shows "fle (Fin 0) (round32 q)"
proof -
  define u where "u = pow2 (binade 127 q - 23)"
  have "0 < u" by (simp add: u_def pow2_pos)
  with assms have "0 \<le> q / u" by simp
  then have "0 \<le> rne (q / u)" by (rule rne_nonneg)
  then have r: "0 \<le> of_int (rne (q / u)) * u" using \<open>0 < u\<close> by simp
  have "\<not> of_int (rne (q / u)) * u \<le> - pow2 128"
    using r pow2_pos [of 128] by linarith
  then show ?thesis
    using r assms by (simp add: round32_def Let_def fle_def flip: u_def)
qed

lemma round32_nonpos:
  assumes "q \<le> 0"
  shows "fle (round32 q) (Fin 0)"
proof -
  define u where "u = pow2 (binade 127 q - 23)"
  have "0 < u" by (simp add: u_def pow2_pos)
  with assms have "q / u \<le> 0" by (simp add: divide_nonpos_pos)
  then have "rne (q / u) \<le> 0" by (rule rne_nonpos)
  then have r: "of_int (rne (q / u)) * u \<le> 0" using \<open>0 < u\<close>
    by (simp add: mult_nonpos_nonneg)
  have "\<not> pow2 128 \<le> of_int (rne (q / u)) * u"
    using r pow2_pos [of 128] by linarith
  then show ?thesis
    using r by (simp add: round32_def Let_def fle_def flip: u_def)
qed

lemma binade_cases: "binade e0 q = - 126 \<or> pow2 (binade e0 q) \<le> \<bar>q\<bar>"
proof (induction e0 q rule: binade.induct)
  case (1 e q)
  then show ?case by (subst (1 2) binade.simps) auto
qed

text \<open>
  Integers below \<open>2 ^ 24\<close> in magnitude are binary32 numbers: rounding leaves them as they
  are. So the conversion of such an \<^verbatim>\<open>int\<close> to \<^verbatim>\<open>float\<close> is exact.
\<close>

lemma round32_of_int:
  assumes "\<bar>n\<bar> < 2 ^ 24"
  shows "round32 (of_int n) = Fin (of_int n)"
proof -
  define e where "e = binade 127 (of_int n)"
  have e23: "e \<le> 23"
  proof (rule ccontr)
    assume "\<not> e \<le> 23"
    then have "24 \<le> e" by simp
    then have "pow2 24 \<le> pow2 e" by (rule pow2_mono)
    moreover have "pow2 e \<le> \<bar>of_int n\<bar>"
      using binade_cases [of 127 "of_int n"] \<open>24 \<le> e\<close> by (auto simp: e_def)
    ultimately have "(2 :: rat) ^ 24 \<le> of_int \<bar>n\<bar>" by (simp add: pow2_def)
    then have "(2 :: int) ^ 24 \<le> \<bar>n\<bar>"
      by (metis of_int_le_iff of_int_numeral of_int_power)
    with assms show False by simp
  qed
  define k where "k = nat (23 - e)"
  have u: "pow2 (e - 23) = 1 / 2 ^ k"
    using e23 by (simp add: pow2_nonpos_exp k_def)
  have "of_int n / pow2 (e - 23) = (of_int (n * 2 ^ k) :: rat)"
    by (simp add: u)
  then have "rne (of_int n / pow2 (e - 23)) = n * 2 ^ k"
    by (simp only: rne_of_int)
  then have r: "of_int (rne (of_int n / pow2 (e - 23))) * pow2 (e - 23) = (of_int n :: rat)"
    by (simp add: u)
  have "\<bar>of_int n :: rat\<bar> < 2 ^ 24"
    using assms by (metis of_int_abs of_int_less_iff of_int_numeral of_int_power)
  then have b: "\<not> pow2 128 \<le> (of_int n :: rat)" "\<not> (of_int n :: rat) \<le> - pow2 128"
    by (simp_all add: pow2_def)
  show ?thesis
    using b by (simp add: round32_def Let_def r flip: e_def)
qed

lemma round32_zero: "round32 0 = Fin 0"
  using round32_of_int [of 0] by simp

lemma round32_numeral:
  "\<bar>numeral k :: int\<bar> < 2 ^ 24 \<Longrightarrow> round32 (numeral k) = Fin (numeral k)"
  "\<bar>numeral k :: int\<bar> < 2 ^ 24 \<Longrightarrow> round32 (- numeral k) = Fin (- numeral k)"
  "round32 1 = Fin 1"
  using round32_of_int [of "numeral k"] round32_of_int [of "- numeral k"] round32_of_int [of 1]
  by simp_all

lemma int_to_float_exact: "\<bar>n\<bar> < 2 ^ 24 \<Longrightarrow> int_to_float n = Fin (of_int n)"
  by (simp add: int_to_float_def round32_of_int)

lemma int_to_float_numeral:
  "\<bar>numeral k :: int\<bar> < 2 ^ 24 \<Longrightarrow> int_to_float (numeral k) = Fin (numeral k)"
  "\<bar>numeral k :: int\<bar> < 2 ^ 24 \<Longrightarrow> int_to_float (- numeral k) = Fin (- numeral k)"
  "int_to_float 0 = Fin 0"
  "int_to_float 1 = Fin 1"
  using int_to_float_exact [of "numeral k"] int_to_float_exact [of "- numeral k"]
    int_to_float_exact [of 0] int_to_float_exact [of 1]
  by simp_all

lemma int_to_float_2: "int_to_float 2 = Fin 2"
  using int_to_float_exact [of 2] by simp

subsection \<open>Subtraction and division\<close>

lemma fval_fneg: "fval (fneg b) = - fval b"
  by (cases b) simp_all

lemma is_fin_fneg: "is_fin (fneg b) = is_fin b"
  by (cases b) simp_all

lemma fle_zero_signed_zero: "fle (Fin 0) (signed_zero n)" "fle (signed_zero n) (Fin 0)"
  by (simp_all add: fle_def signed_zero_def)

lemma is_fin_not_special: "is_fin a \<Longrightarrow> a \<noteq> NaN \<and> a \<noteq> PInf \<and> a \<noteq> NInf"
  by (cases a) simp_all

lemma fsub_finite:
  assumes "is_fin a" "is_fin b"
  shows "fsub a b = (if fval a - fval b = 0 then signed_zero (a = NegZero \<and> fneg b = NegZero)
                     else round32 (fval a - fval b))"
  using is_fin_not_special [OF assms(1)] is_fin_not_special [of "fneg b"] assms(2)
  by (simp add: fsub_def fadd_def is_fin_fneg fval_fneg Let_def)

lemma fsub_nonneg:
  assumes "is_fin a" "is_fin b" "fle b a"
  shows "fle (Fin 0) (fsub a b)"
proof -
  from assms have "0 \<le> fval a - fval b"
    using is_fin_not_special [of a] is_fin_not_special [of b] by (simp add: fle_def)
  then show ?thesis
    by (simp add: fsub_finite assms(1,2) fle_zero_signed_zero round32_nonneg)
qed

lemma fsub_nonpos:
  assumes "is_fin a" "is_fin b" "fle a b"
  shows "fle (fsub a b) (Fin 0)"
proof -
  from assms have "fval a - fval b \<le> 0"
    using is_fin_not_special [of a] is_fin_not_special [of b] by (simp add: fle_def)
  then show ?thesis
    by (simp add: fsub_finite assms(1,2) fle_zero_signed_zero round32_nonpos)
qed

lemma fdiv_two:
  "fdiv w (Fin 2) =
     (case w of Fin r \<Rightarrow> if r = 0 then Fin 0 else round32 (r / 2)
      | NegZero \<Rightarrow> NegZero | PInf \<Rightarrow> PInf | NInf \<Rightarrow> NInf | NaN \<Rightarrow> NaN)"
  by (cases w) (simp_all add: fdiv_def signed_zero_def signed_inf_def)

lemma half_nonneg:
  assumes "fle (Fin 0) w"
  shows "fle (Fin 0) (fdiv w (Fin 2))"
proof (cases w)
  case (Fin r)
  with assms have "0 \<le> r / 2" by (simp add: fle_def)
  then have "fle (Fin 0) (round32 (r / 2))" by (rule round32_nonneg)
  with Fin show ?thesis by (simp add: fdiv_two fle_def)
qed (use assms in \<open>simp_all add: fdiv_two fle_def\<close>)

lemma half_nonpos:
  assumes "fle w (Fin 0)"
  shows "fle (fdiv w (Fin 2)) (Fin 0)"
proof (cases w)
  case (Fin r)
  with assms have "r / 2 \<le> 0" by (simp add: fle_def)
  then have "fle (round32 (r / 2)) (Fin 0)" by (rule round32_nonpos)
  with Fin show ?thesis by (simp add: fdiv_two fle_def)
qed (use assms in \<open>simp_all add: fdiv_two fle_def\<close>)

lemma fdiv_pos_finite:
  assumes "0 < c"
  shows "fdiv (Fin q) (Fin c) = round32 (q / c)"
  using assms by (simp add: fdiv_def signed_zero_def round32_zero)

lemma fdiv_int_by_pos:
  assumes "\<bar>n\<bar> < 2 ^ 24" "0 < c"
  shows "fdiv (int_to_float n) (Fin c) = round32 (of_int n / c)"
  using assms by (simp add: int_to_float_exact fdiv_pos_finite)

lemma fdiv_int_by_one:
  assumes "\<bar>n\<bar> < 2 ^ 24"
  shows "fdiv (int_to_float n) (Fin 1) = Fin (of_int n)"
  using assms by (simp add: fdiv_int_by_pos round32_of_int)

lemma fdiv_96_not_NaN: "fdiv (round32 q) (Fin 96) \<noteq> NaN"
  by (cases "round32 q")
    (simp_all add: fdiv_def signed_zero_def signed_inf_def round32_not_NaN)

lemma feq_refl: "a \<noteq> NaN \<Longrightarrow> feq a a"
  by (simp add: feq_def)

text \<open>
  The rules that evaluate the arithmetic on numerals, and the scale at 96 DPI.
\<close>

lemmas f32_arith = fadd_def fsub_def fdiv_def signed_zero_def signed_inf_def
  round32_numeral round32_zero int_to_float_numeral

lemma uint_to_float_96: "uint_to_float 96 = Fin 96"
  using round32_of_int [of 96] by (simp add: uint_to_float_def)

lemma fdiv_96_96: "fdiv (Fin 96) (Fin 96) = Fin 1"
  using round32_of_int [of 1] by (simp add: fdiv_pos_finite)


section \<open>Properties of the handlers\<close>

subsection \<open>Results and messages\<close>

lemma emit_fields [simp]:
  "pFactory (emit c s) = pFactory s"
  "pRenderTarget (emit c s) = pRenderTarget s"
  "pBrush (emit c s) = pBrush s"
  "ellipse (emit c s) = ellipse s"
  "ptMouse (emit c s) = ptMouse s"
  "scaleX (emit c s) = scaleX s"
  "scaleY (emit c s) = scaleY s"
  "calls (emit c s) = calls s @ [c]"
  by (simp_all add: emit_def)

lemma shape_fields [simp]:
  "ptx (Point2F a b) = a" "pty (Point2F a b) = b"
  "point (Ellipse c rx ry) = c" "radiusX (Ellipse c rx ry) = rx" "radiusY (Ellipse c rx ry) = ry"
  by (simp_all add: Point2F_def Ellipse_def)

lemmas WM_defs = WM_CREATE_def WM_DESTROY_def WM_SIZE_def WM_PAINT_def WM_KEYDOWN_def
  WM_KEYUP_def WM_CHAR_def WM_SYSKEYDOWN_def WM_SYSKEYUP_def WM_SYSCHAR_def
  WM_MOUSEMOVE_def WM_LBUTTONDOWN_def WM_LBUTTONUP_def

lemma hresult_values:
  "SUCCEEDED S_OK" "\<not> FAILED S_OK" "FAILED E_FAIL" "\<not> SUCCEEDED E_FAIL"
  "FAILED D2DERR_RECREATE_TARGET" "\<not> SUCCEEDED D2DERR_RECREATE_TARGET"
  "S_OK \<noteq> D2DERR_RECREATE_TARGET"
  by (simp_all add: SUCCEEDED_def FAILED_def S_OK_def E_FAIL_def D2DERR_RECREATE_TARGET_def)

lemma MK_LBUTTON_held: "MK_LBUTTON AND MK_LBUTTON \<noteq> 0"
  by (simp add: MK_LBUTTON_def)

lemma lparam_xy:
  "GET_X_LPARAM (MAKELPARAM 10 10) = 10" "GET_Y_LPARAM (MAKELPARAM 10 10) = 10"
  "GET_X_LPARAM (MAKELPARAM 50 50) = 50" "GET_Y_LPARAM (MAKELPARAM 50 50) = 50"
  "GET_X_LPARAM (MAKELPARAM 0 0) = 0" "GET_Y_LPARAM (MAKELPARAM 0 0) = 0"
  "GET_X_LPARAM (MAKELPARAM 100 100) = 100" "GET_Y_LPARAM (MAKELPARAM 100 100) = 100"
  by (simp_all add: GET_X_LPARAM_def GET_Y_LPARAM_def MAKELPARAM_def)

text \<open>
  A mouse message carries 16-bit coordinates, so their conversion to \<^verbatim>\<open>float\<close> is exact.
\<close>

lemma mouse_coordinates_small:
  "\<bar>GET_X_LPARAM lp\<bar> < 2 ^ 24" "\<bar>GET_Y_LPARAM lp\<bar> < 2 ^ 24"
proof -
  have "\<bar>sint w\<bar> < 2 ^ 24" for w :: "16 word"
    using sint_lt [of w] sint_ge [of w] by simp
  then show "\<bar>GET_X_LPARAM lp\<bar> < 2 ^ 24" "\<bar>GET_Y_LPARAM lp\<bar> < 2 ^ 24"
    by (simp_all add: GET_X_LPARAM_def GET_Y_LPARAM_def)
qed

subsection \<open>The graphics resources\<close>

lemma Discard_fields [simp]:
  "pFactory (DiscardGraphicsResources s) = pFactory s"
  "pRenderTarget (DiscardGraphicsResources s) = None"
  "pBrush (DiscardGraphicsResources s) = None"
  "ellipse (DiscardGraphicsResources s) = ellipse s"
  "ptMouse (DiscardGraphicsResources s) = ptMouse s"
  "scaleX (DiscardGraphicsResources s) = scaleX s"
  "scaleY (DiscardGraphicsResources s) = scaleY s"
  "calls (DiscardGraphicsResources s) =
     calls s @ snd (SafeRelease (pRenderTarget s)) @ snd (SafeRelease (pBrush s))"
  by (simp_all add: DiscardGraphicsResources_def SafeRelease_def split: option.splits)

lemma Discard_idem:
  "DiscardGraphicsResources (DiscardGraphicsResources s) = DiscardGraphicsResources s"
  by (simp add: DiscardGraphicsResources_def SafeRelease_def split: option.splits)

lemma Discard_absent:
  "pRenderTarget s = None \<Longrightarrow> pBrush s = None \<Longrightarrow> DiscardGraphicsResources s = s"
  by (simp add: DiscardGraphicsResources_def SafeRelease_def)

lemma CreateGraphicsResources_present:
  "pRenderTarget s \<noteq> None \<Longrightarrow> CreateGraphicsResources h s = Inr (S_OK, s)"
  by (auto simp: CreateGraphicsResources_def)

lemma CreateGraphicsResources_absent:
  assumes "pRenderTarget s = None" "pFactory s = Some f"
  shows "\<exists>hr s1. CreateGraphicsResources h s = Inr (hr, s1)
           \<and> pRenderTarget s1 = created (target_hr h) (target_obj h)"
  using assms
  by (simp add: CreateGraphicsResources_def Let_def created_def CalculateLayout_def)

lemma CreateGraphicsResources_success:
  assumes "CreateGraphicsResources h s = Inr (hr, s1)" "SUCCEEDED hr"
  shows "pRenderTarget s1 \<noteq> None"
  using assms
  by (auto simp: CreateGraphicsResources_def Let_def created_def CalculateLayout_def
      split: if_splits option.splits)

lemma CreateGraphicsResources_frame:
  assumes "CreateGraphicsResources h s = Inr (hr, s1)"
  shows "pFactory s1 = pFactory s \<and> ellipse s1 = ellipse s \<and> ptMouse s1 = ptMouse s
         \<and> scaleX s1 = scaleX s \<and> scaleY s1 = scaleY s"
  using assms
  by (auto simp: CreateGraphicsResources_def Let_def CalculateLayout_def
      split: if_splits option.splits)

text \<open>
  The three outcomes of \<^verbatim>\<open>CreateGraphicsResources\<close> when there is no render target yet.
\<close>

lemma CreateGraphicsResources_target_failure:
  assumes "pRenderTarget s = None" "pFactory s = Some f" "\<not> SUCCEEDED (target_hr h)"
  shows "\<exists>s'. CreateGraphicsResources h s = Inr (target_hr h, s')
           \<and> pRenderTarget s' = None \<and> pBrush s' = pBrush s"
  using assms by (simp add: CreateGraphicsResources_def Let_def created_def)

lemma CreateGraphicsResources_both_created:
  assumes "pRenderTarget s = None" "pFactory s = Some f"
    "SUCCEEDED (target_hr h)" "SUCCEEDED (brush_hr h)"
  shows "\<exists>s'. CreateGraphicsResources h s = Inr (brush_hr h, s')
           \<and> pRenderTarget s' = Some (target_obj h) \<and> pBrush s' = Some (brush_obj h)"
  using assms by (simp add: CreateGraphicsResources_def Let_def created_def CalculateLayout_def)

lemma CreateGraphicsResources_brush_failure:
  assumes "pRenderTarget s = None" "pFactory s = Some f"
    "SUCCEEDED (target_hr h)" "\<not> SUCCEEDED (brush_hr h)"
  shows "\<exists>s'. CreateGraphicsResources h s = Inr (brush_hr h, s')
           \<and> pRenderTarget s' = Some (target_obj h) \<and> pBrush s' = None"
  using assms by (simp add: CreateGraphicsResources_def Let_def created_def)

lemma Resize_absent: "pRenderTarget s = None \<Longrightarrow> Resize h s = s"
  by (simp add: Resize_def)

lemma OnPaint_present:
  assumes "pRenderTarget s = Some rt"
  shows "OnPaint h s =
     Inr (emit EndPaint
       ((if FAILED (enddraw_hr h) \<or> enddraw_hr h = D2DERR_RECREATE_TARGET
         then DiscardGraphicsResources else id)
        (emit (EndDraw rt) (emit (FillEllipse rt (ellipse s) (pBrush s))
          (emit (Clear rt) (emit (BeginDraw rt) (emit BeginPaint s)))))))"
  using assms
  by (simp add: OnPaint_def CreateGraphicsResources_present hresult_values Let_def)

text \<open>
  A paint that starts with both resources or with neither gives \<open>FillEllipse\<close> a brush,
  and draws on the render target it has after \<^verbatim>\<open>CreateGraphicsResources\<close>.
\<close>

lemma OnPaint_fill_has_brush:
  assumes pair: "pRenderTarget s = None \<longleftrightarrow> pBrush s = None"
    and paint: "OnPaint h s = Inr s'"
    and fill: "FillEllipse rt e b \<in> set (drop (length (calls s)) (calls s'))"
  shows "b \<noteq> None \<and> pRenderTarget (snd (projr (CreateGraphicsResources h s))) = Some rt"
proof (cases "pRenderTarget s")
  case (Some t)
  with pair obtain br where br: "pBrush s = Some br" by auto
  from paint fill Some br show ?thesis
    by (auto simp: OnPaint_present [OF Some] CreateGraphicsResources_present SafeRelease_def
        split: if_splits)
next
  case None
  with paint fill show ?thesis
    by (auto simp: OnPaint_def CreateGraphicsResources_def Let_def created_def CalculateLayout_def
        SafeRelease_def split: if_splits option.splits)
qed

subsection \<open>The messages one by one\<close>

lemma WM_PAINT_result:
  "HandleMessage WM_PAINT wParam lParam h s =
     (case OnPaint h s of Inl e \<Rightarrow> Inl e | Inr s1 \<Rightarrow> Inr (0, s1))"
  by (simp add: HandleMessage_def WM_defs)

lemma WM_MOUSEMOVE_result:
  "HandleMessage WM_MOUSEMOVE wParam lParam h s =
     Inr (0, OnMouseMove (GET_X_LPARAM lParam) (GET_Y_LPARAM lParam) (ucast wParam) s)"
  by (simp add: HandleMessage_def WM_defs)

lemma WM_LBUTTONDOWN_result:
  "HandleMessage WM_LBUTTONDOWN wParam lParam h s =
     Inr (0, OnLButtonDown (GET_X_LPARAM lParam) (GET_Y_LPARAM lParam) (ucast wParam) s)"
  by (simp add: HandleMessage_def WM_defs)

lemma WM_LBUTTONUP_result:
  "HandleMessage WM_LBUTTONUP wParam lParam h s = Inr (0, OnLButtonUp s)"
  by (simp add: HandleMessage_def WM_defs)

lemma WM_DESTROY_result:
  "HandleMessage WM_DESTROY wParam lParam h s =
     Inr (0, emit PostQuitMessage
       ((DiscardGraphicsResources s)
          \<lparr>pFactory := None,
           calls := calls (DiscardGraphicsResources s) @ snd (SafeRelease (pFactory s))\<rparr>))"
  by (simp add: HandleMessage_def WM_defs SafeRelease_def Let_def split: option.splits)

lemma create_at_96: "HandleMessage WM_CREATE wParam lParam all_ok initial = Inr (0, created_window)"
  by (simp add: HandleMessage_def WM_defs all_ok_def initial_def created_window_def created_def
      hresult_values Initialize_def Let_def emit_def uint_to_float_96 fdiv_96_96)

subsection \<open>The mouse handlers\<close>

lemma PixelsToDips_fields:
  "ptx (PixelsToDips s px py) = fdiv (int_to_float px) (scaleX s)"
  "pty (PixelsToDips s px py) = fdiv (int_to_float py) (scaleY s)"
  by (simp_all add: PixelsToDips_def Point2F_def)

lemma OnLButtonDown_fields:
  "ptMouse (OnLButtonDown pixelX pixelY flags s) = PixelsToDips s pixelX pixelY"
  "ellipse (OnLButtonDown pixelX pixelY flags s) =
     Ellipse (PixelsToDips s pixelX pixelY) (Fin 1) (Fin 1)"
  "pFactory (OnLButtonDown pixelX pixelY flags s) = pFactory s"
  "pRenderTarget (OnLButtonDown pixelX pixelY flags s) = pRenderTarget s"
  "pBrush (OnLButtonDown pixelX pixelY flags s) = pBrush s"
  "scaleX (OnLButtonDown pixelX pixelY flags s) = scaleX s"
  "scaleY (OnLButtonDown pixelX pixelY flags s) = scaleY s"
  by (simp_all add: OnLButtonDown_def Let_def PixelsToDips_def Ellipse_def)

lemma calls_OnLButtonDown: "calls (OnLButtonDown x y f s) = calls s @ [SetCapture, InvalidateRect]"
  by (simp add: OnLButtonDown_def Let_def)

lemma OnMouseMove_released:
  "flags AND MK_LBUTTON = 0 \<Longrightarrow> OnMouseMove pixelX pixelY flags s = s"
  by (simp add: OnMouseMove_def)

lemma OnMouseMove_held:
  assumes "flags AND MK_LBUTTON \<noteq> 0"
  shows "ellipse (OnMouseMove pixelX pixelY flags s) =
     Ellipse
       (Point2F
          (fadd (ptx (ptMouse s))
             (fdiv (fsub (ptx (PixelsToDips s pixelX pixelY)) (ptx (ptMouse s))) (Fin 2)))
          (fadd (pty (ptMouse s))
             (fdiv (fsub (pty (PixelsToDips s pixelX pixelY)) (pty (ptMouse s))) (Fin 2))))
       (fdiv (fsub (ptx (PixelsToDips s pixelX pixelY)) (ptx (ptMouse s))) (Fin 2))
       (fdiv (fsub (pty (PixelsToDips s pixelX pixelY)) (pty (ptMouse s))) (Fin 2))"
    and "ptMouse (OnMouseMove pixelX pixelY flags s) = ptMouse s"
    and "scaleX (OnMouseMove pixelX pixelY flags s) = scaleX s"
    and "scaleY (OnMouseMove pixelX pixelY flags s) = scaleY s"
  using assms by (simp_all add: OnMouseMove_def Let_def int_to_float_2)

lemma OnMouseMove_scales:
  "scaleX (OnMouseMove pixelX pixelY flags s) = scaleX s"
  "scaleY (OnMouseMove pixelX pixelY flags s) = scaleY s"
  by (simp_all add: OnMouseMove_def Let_def)

text \<open>
  The messages of a drag from pixel (0, 0) to pixel (50, 50) at 96 DPI.
\<close>

lemma drag_messages_give_circle:
  "\<not> isl (run initial
      [(WM_CREATE, 0, 0, all_ok), (WM_LBUTTONDOWN, 1, MAKELPARAM 0 0, all_ok),
       (WM_MOUSEMOVE, 1, MAKELPARAM 50 50, all_ok)])
   \<and> ellipse (projr (run initial
      [(WM_CREATE, 0, 0, all_ok), (WM_LBUTTONDOWN, 1, MAKELPARAM 0 0, all_ok),
       (WM_MOUSEMOVE, 1, MAKELPARAM 50 50, all_ok)])) =
     Ellipse (Point2F (Fin 25) (Fin 25)) (Fin 25) (Fin 25)"
proof -
  have held: "(1 :: DWORD) AND MK_LBUTTON \<noteq> 0"
    by (simp add: MK_LBUTTON_def)
  have scale: "scaleX created_window = Fin 1" "scaleY created_window = Fin 1"
    by (simp_all add: created_window_def initial_def)
  let ?p = "OnLButtonDown 0 0 1 created_window"
  have anchor: "ptMouse ?p = Point2F (Fin 0) (Fin 0)"
    by (simp add: OnLButtonDown_fields PixelsToDips_def scale f32_arith)
  have dips: "PixelsToDips ?p 50 50 = Point2F (Fin 50) (Fin 50)"
    by (simp add: PixelsToDips_def OnLButtonDown_fields scale f32_arith)
  have "ellipse (OnMouseMove 50 50 1 ?p) =
      Ellipse (Point2F (Fin 25) (Fin 25)) (Fin 25) (Fin 25)"
    by (simp add: OnMouseMove_held(1) [OF held] anchor dips f32_arith)
  then show ?thesis
    by (simp add: create_at_96 WM_LBUTTONDOWN_result WM_MOUSEMOVE_result lparam_xy)
qed

subsection \<open>Pointer capture\<close>

lemma captured_emit: "captured (emit c s) = capture_step c (captured s)"
  by (simp add: captured_def)

lemma captured_append_quiet:
  assumes "SetCapture \<notin> set cs" "ReleaseCapture \<notin> set cs"
  shows "fold capture_step cs b = b"
  using assms by (induction cs arbitrary: b) (auto simp: capture_step_def)

lemma SafeRelease_quiet:
  "SetCapture \<notin> set (snd (SafeRelease p))" "ReleaseCapture \<notin> set (snd (SafeRelease p))"
  by (simp_all add: SafeRelease_def split: option.splits)

lemma captured_Discard: "captured (DiscardGraphicsResources s) = captured s"
  by (simp add: captured_def captured_append_quiet SafeRelease_quiet)

lemma captured_OnLButtonUp: "\<not> captured (OnLButtonUp s)"
  by (simp add: OnLButtonUp_def captured_emit capture_step_def)

lemma captured_OnLButtonDown: "captured (OnLButtonDown x y f s)"
  by (simp add: captured_def calls_OnLButtonDown capture_step_def)

lemma captured_WM_DESTROY:
  "\<exists>s'. HandleMessage WM_DESTROY wParam lParam h s = Inr (0, s') \<and> captured s' = captured s
         \<and> ReleaseCapture \<notin> set (drop (length (calls s)) (calls s'))"
  by (simp add: WM_DESTROY_result captured_def captured_append_quiet SafeRelease_quiet
      capture_step_def)

subsection \<open>The scale factors\<close>

text \<open>
  Only \<^verbatim>\<open>DPIScale::Initialize\<close> writes the scale factors, and it writes the same value to
  both; so every message keeps them equal, and so does every run.
\<close>

lemma Initialize_scales:
  "scaleX (Initialize h s) = fdiv (uint_to_float (window_dpi h)) (Fin 96)"
  "scaleY (Initialize h s) = fdiv (uint_to_float (window_dpi h)) (Fin 96)"
  by (simp_all add: Initialize_def Let_def)

lemma OnLButtonUp_scales:
  "scaleX (OnLButtonUp s) = scaleX s" "scaleY (OnLButtonUp s) = scaleY s"
  by (simp_all add: OnLButtonUp_def)

lemma Resize_scales:
  "scaleX (Resize h s) = scaleX s" "scaleY (Resize h s) = scaleY s"
  by (simp_all add: Resize_def Let_def CalculateLayout_def split: option.splits)

lemma OnPaint_scales:
  assumes "OnPaint h s = Inr s'"
  shows "scaleX s' = scaleX s \<and> scaleY s' = scaleY s"
proof (cases "CreateGraphicsResources h s")
  case (Inl e)
  with assms show ?thesis by (simp add: OnPaint_def)
next
  case (Inr p)
  obtain hr s1 where p: "p = (hr, s1)" by (cases p)
  from CreateGraphicsResources_frame [of h s hr s1] Inr p
  have fr: "scaleX s1 = scaleX s" "scaleY s1 = scaleY s" by simp_all
  from assms Inr p fr show ?thesis
    by (auto simp: OnPaint_def Let_def split: if_splits option.splits)
qed

lemma DefWindowProc_scales:
  assumes "DefWindowProc_result uMsg h s = Inr (r, s')"
  shows "scaleX s' = scaleX s \<and> scaleY s' = scaleY s"
  using assms by (auto simp: DefWindowProc_result_def)

lemma HandleMessage_scales:
  assumes "HandleMessage uMsg wParam lParam h s = Inr (r, s')"
  shows "(scaleX s' = scaleX s \<and> scaleY s' = scaleY s)
       \<or> (scaleX s' = fdiv (uint_to_float (window_dpi h)) (Fin 96)
          \<and> scaleY s' = fdiv (uint_to_float (window_dpi h)) (Fin 96))"
proof -
  consider (create) "uMsg = WM_CREATE"
    | (paint) "uMsg \<noteq> WM_CREATE" "uMsg = WM_PAINT"
    | (other) "uMsg \<noteq> WM_CREATE" "uMsg \<noteq> WM_PAINT"
    by blast
  then show ?thesis
  proof cases
    case create
    with assms show ?thesis
      by (auto simp: HandleMessage_def Let_def Initialize_scales split: if_splits)
  next
    case paint
    then have "HandleMessage uMsg wParam lParam h s =
        (case OnPaint h s of Inl e \<Rightarrow> Inl e | Inr s1 \<Rightarrow> Inr (0, s1))"
      by (simp add: WM_PAINT_result)
    with assms obtain s1 where "OnPaint h s = Inr s1" "s' = s1"
      by (auto split: sum.splits)
    then show ?thesis
      using OnPaint_scales by blast
  next
    case other
    with assms show ?thesis
      by (auto simp: HandleMessage_def Let_def OnLButtonDown_fields OnMouseMove_scales
          OnLButtonUp_scales Resize_scales SafeRelease_def
          dest!: DefWindowProc_scales split: if_splits option.splits)
  qed
qed

lemma scale_invariant_step:
  assumes "HandleMessage uMsg wParam lParam h s = Inr (r, s')"
    and "scaleX s = scaleY s" "scaleX s \<noteq> NaN"
  shows "scaleX s' = scaleY s' \<and> scaleX s' \<noteq> NaN"
proof -
  from HandleMessage_scales [OF assms(1)]
  consider (same) "scaleX s' = scaleX s" "scaleY s' = scaleY s"
    | (init) "scaleX s' = fdiv (uint_to_float (window_dpi h)) (Fin 96)"
        "scaleY s' = fdiv (uint_to_float (window_dpi h)) (Fin 96)"
    by blast
  then show ?thesis
  proof cases
    case same
    with assms(2,3) show ?thesis by simp
  next
    case init
    have "fdiv (uint_to_float (window_dpi h)) (Fin 96) \<noteq> NaN"
      unfolding uint_to_float_def by (rule fdiv_96_not_NaN)
    with init show ?thesis by simp
  qed
qed

lemma scale_invariant_run:
  assumes "run s ms = Inr s'" "scaleX s = scaleY s" "scaleX s \<noteq> NaN"
  shows "scaleX s' = scaleY s' \<and> scaleX s' \<noteq> NaN"
  using assms
proof (induction ms arbitrary: s)
  case Nil
  then show ?case by simp
next
  case (Cons m ms)
  obtain uMsg wParam lParam h where m: "m = (uMsg, wParam, lParam, h)"
    by (cases m)
  from Cons.prems(1) m obtain r s1
    where step: "HandleMessage uMsg wParam lParam h s = Inr (r, s1)"
      and rest: "run s1 ms = Inr s'"
    by (auto split: sum.splits)
  from scale_invariant_step [OF step Cons.prems(2,3)]
  have "scaleX s1 = scaleY s1" and "scaleX s1 \<noteq> NaN"
    by blast+
  then show ?case
    by (rule Cons.IH [OF rest])
qed


section \<open>The claims\<close>

subsection \<open>Creating the device-dependent resources\<close>

text \<open>
  C1. For every outcome of \<^verbatim>\<open>CreateGraphicsResources\<close> the device-dependent resources
  are both present or both absent: when the render target is created and the brush is
  not, the render target is discarded as well, and the error is returned.

  The program does not do this. In the freshly created window, with a platform that
  creates the render target and fails to create the brush, \<^verbatim>\<open>CreateGraphicsResources\<close>
  returns the brush's error and makes no \<open>Release\<close> call: the render target stays while
  the brush is absent. (The other outcomes keep the pairing: see
  \<open>CreateGraphicsResources_target_failure\<close> and \<open>CreateGraphicsResources_both_created\<close>.)
\<close>

theorem CreateGraphicsResources_brush_failure_keeps_target:
  "CreateGraphicsResources brush_fails created_window =
     Inr (E_FAIL, created_window\<lparr>pRenderTarget := Some 2,
       calls := [D2D1CreateFactory, GetDpiForWindow, GetClientRect,
                 CreateHwndRenderTarget 1 (640, 480), CreateSolidColorBrush 2]\<rparr>)
   \<and> pRenderTarget created_window = None \<and> pBrush created_window = None \<and> FAILED E_FAIL"
  by (simp add: CreateGraphicsResources_def brush_fails_def all_ok_def created_window_def
      initial_def created_def hresult_values emit_def)

text \<open>
  C2. For every sequence of messages, whenever \<^verbatim>\<open>OnPaint\<close> issues \<open>FillEllipse\<close>, both the
  render target and the brush exist.

  The program does not ensure this. After a paint in which the brush could not be
  created, the render target is present and the brush is absent (see C1); the next paint
  finds the render target, creates nothing, and calls \<open>FillEllipse\<close> with a null brush.
\<close>

theorem paint_after_brush_failure_fills_with_null_brush:
  "\<not> isl (run initial
      [(WM_CREATE, 0, 0, all_ok), (WM_PAINT, 0, 0, brush_fails), (WM_PAINT, 0, 0, all_ok)])
   \<and> FillEllipse 2 (ellipse initial) None \<in> set (calls (projr (run initial
      [(WM_CREATE, 0, 0, all_ok), (WM_PAINT, 0, 0, brush_fails), (WM_PAINT, 0, 0, all_ok)])))"
proof -
  define half where "half = created_window\<lparr>pRenderTarget := Some 2,
       calls := [D2D1CreateFactory, GetDpiForWindow, GetClientRect,
                 CreateHwndRenderTarget 1 (640, 480), CreateSolidColorBrush 2]\<rparr>"
  have create: "CreateGraphicsResources brush_fails created_window = Inr (E_FAIL, half)"
    by (simp add: CreateGraphicsResources_def brush_fails_def all_ok_def created_window_def
        initial_def created_def hresult_values emit_def half_def)
  have first: "HandleMessage WM_PAINT 0 0 brush_fails created_window = Inr (0, half)"
    by (simp add: WM_PAINT_result OnPaint_def create hresult_values)
  have half: "pRenderTarget half = Some 2" "pBrush half = None" "ellipse half = ellipse initial"
    by (simp_all add: half_def created_window_def initial_def)
  have ok: "\<not> FAILED (enddraw_hr all_ok)" "enddraw_hr all_ok \<noteq> D2DERR_RECREATE_TARGET"
    by (simp_all add: all_ok_def hresult_values)
  have second: "HandleMessage WM_PAINT 0 0 all_ok half =
      Inr (0, emit EndPaint (emit (EndDraw 2) (emit (FillEllipse 2 (ellipse initial) None)
          (emit (Clear 2) (emit (BeginDraw 2) (emit BeginPaint half))))))"
    by (simp add: WM_PAINT_result OnPaint_present [OF half(1)] half ok)
  show ?thesis
    by (simp add: create_at_96 first second)
qed

subsection \<open>The shape\<close>

text \<open>
  The wording of C3 in the spec, that both radii are at least 0 after every update of the
  shape, fails when the pointer is dragged up and to the left of the anchor: after a
  press at pixel (10, 10) and a move to pixel (0, 0) with the button held, at scale 1,
  both radii are \<open>- 5\<close>.
\<close>

theorem dragging_up_left_gives_negative_radii:
  "MK_LBUTTON AND MK_LBUTTON \<noteq> 0
   \<and> radiusX (ellipse (OnMouseMove 0 0 MK_LBUTTON (OnLButtonDown 10 10 MK_LBUTTON created_window)))
       = Fin (- 5)
   \<and> radiusY (ellipse (OnMouseMove 0 0 MK_LBUTTON (OnLButtonDown 10 10 MK_LBUTTON created_window)))
       = Fin (- 5)
   \<and> \<not> fle (Fin 0)
        (radiusX (ellipse (OnMouseMove 0 0 MK_LBUTTON (OnLButtonDown 10 10 MK_LBUTTON created_window))))"
proof -
  let ?p = "OnLButtonDown 10 10 MK_LBUTTON created_window"
  have a: "scaleX created_window = Fin 1" "scaleY created_window = Fin 1"
    by (simp_all add: created_window_def initial_def)
  have anchor: "ptMouse ?p = Point2F (Fin 10) (Fin 10)"
    by (simp add: OnLButtonDown_fields PixelsToDips_def a f32_arith)
  have dips: "PixelsToDips ?p 0 0 = Point2F (Fin 0) (Fin 0)"
    by (simp add: PixelsToDips_def OnLButtonDown_fields a f32_arith)
  have r: "radiusX (ellipse (OnMouseMove 0 0 MK_LBUTTON ?p)) = Fin (- 5)"
    "radiusY (ellipse (OnMouseMove 0 0 MK_LBUTTON ?p)) = Fin (- 5)"
    by (simp_all add: OnMouseMove_held(1) [OF MK_LBUTTON_held] anchor dips f32_arith)
  have n: "\<not> fle (Fin 0) (Fin (- 5))"
    by (simp add: fle_def)
  from MK_LBUTTON_held r n show ?thesis
    by (simp only: simp_thms)
qed

text \<open>
  C3, as amended. A press sets both radii to 1. A move with the primary button held sets
  each radius to the signed half-delta \<open>(current - anchor) / 2\<close> on its axis, not to its
  magnitude: for finite coordinates the radius is at least 0 when the current point is
  not before the anchor on that axis, and at most 0 when it is not after the anchor.
\<close>

theorem radii_are_signed_half_deltas:
  assumes "flags AND MK_LBUTTON \<noteq> 0"
    and "is_fin (ptx (PixelsToDips s pixelX pixelY))" "is_fin (ptx (ptMouse s))"
    and "is_fin (pty (PixelsToDips s pixelX pixelY))" "is_fin (pty (ptMouse s))"
  shows "radiusX (ellipse (OnLButtonDown pixelX pixelY flags s)) = Fin 1
    \<and> radiusY (ellipse (OnLButtonDown pixelX pixelY flags s)) = Fin 1
    \<and> fle (Fin 0) (Fin 1)
    \<and> radiusX (ellipse (OnMouseMove pixelX pixelY flags s)) =
        fdiv (fsub (ptx (PixelsToDips s pixelX pixelY)) (ptx (ptMouse s))) (Fin 2)
    \<and> radiusY (ellipse (OnMouseMove pixelX pixelY flags s)) =
        fdiv (fsub (pty (PixelsToDips s pixelX pixelY)) (pty (ptMouse s))) (Fin 2)
    \<and> (fle (ptx (ptMouse s)) (ptx (PixelsToDips s pixelX pixelY)) \<longrightarrow>
          fle (Fin 0) (radiusX (ellipse (OnMouseMove pixelX pixelY flags s))))
    \<and> (fle (ptx (PixelsToDips s pixelX pixelY)) (ptx (ptMouse s)) \<longrightarrow>
          fle (radiusX (ellipse (OnMouseMove pixelX pixelY flags s))) (Fin 0))
    \<and> (fle (pty (ptMouse s)) (pty (PixelsToDips s pixelX pixelY)) \<longrightarrow>
          fle (Fin 0) (radiusY (ellipse (OnMouseMove pixelX pixelY flags s))))
    \<and> (fle (pty (PixelsToDips s pixelX pixelY)) (pty (ptMouse s)) \<longrightarrow>
          fle (radiusY (ellipse (OnMouseMove pixelX pixelY flags s))) (Fin 0))"
proof -
  let ?d = "PixelsToDips s pixelX pixelY"
  let ?s' = "OnMouseMove pixelX pixelY flags s"
  have press: "radiusX (ellipse (OnLButtonDown pixelX pixelY flags s)) = Fin 1"
    "radiusY (ellipse (OnLButtonDown pixelX pixelY flags s)) = Fin 1"
    by (simp_all add: OnLButtonDown_fields)
  have one: "fle (Fin 0) (Fin 1)"
    by (simp add: fle_def)
  have rx: "radiusX (ellipse ?s') = fdiv (fsub (ptx ?d) (ptx (ptMouse s))) (Fin 2)"
    and ry: "radiusY (ellipse ?s') = fdiv (fsub (pty ?d) (pty (ptMouse s))) (Fin 2)"
    by (simp_all add: OnMouseMove_held(1) [OF assms(1)])
  have x_pos: "fle (Fin 0) (radiusX (ellipse ?s'))" if "fle (ptx (ptMouse s)) (ptx ?d)"
    unfolding rx by (intro half_nonneg fsub_nonneg assms that)
  have x_neg: "fle (radiusX (ellipse ?s')) (Fin 0)" if "fle (ptx ?d) (ptx (ptMouse s))"
    unfolding rx by (intro half_nonpos fsub_nonpos assms that)
  have y_pos: "fle (Fin 0) (radiusY (ellipse ?s'))" if "fle (pty (ptMouse s)) (pty ?d)"
    unfolding ry by (intro half_nonneg fsub_nonneg assms that)
  have y_neg: "fle (radiusY (ellipse ?s')) (Fin 0)" if "fle (pty ?d) (pty (ptMouse s))"
    unfolding ry by (intro half_nonpos fsub_nonpos assms that)
  from press one rx ry x_pos x_neg y_pos y_neg show ?thesis
    by blast
qed

theorem radii_are_signed_half_deltas_witness:
  "MK_LBUTTON AND MK_LBUTTON \<noteq> 0
   \<and> is_fin (ptx (PixelsToDips (OnLButtonDown 10 10 MK_LBUTTON created_window) 0 30))
   \<and> is_fin (pty (PixelsToDips (OnLButtonDown 10 10 MK_LBUTTON created_window) 0 30))
   \<and> is_fin (ptx (ptMouse (OnLButtonDown 10 10 MK_LBUTTON created_window)))
   \<and> is_fin (pty (ptMouse (OnLButtonDown 10 10 MK_LBUTTON created_window)))
   \<and> fle (ptx (PixelsToDips (OnLButtonDown 10 10 MK_LBUTTON created_window) 0 30))
         (ptx (ptMouse (OnLButtonDown 10 10 MK_LBUTTON created_window)))
   \<and> fle (pty (ptMouse (OnLButtonDown 10 10 MK_LBUTTON created_window)))
         (pty (PixelsToDips (OnLButtonDown 10 10 MK_LBUTTON created_window) 0 30))
   \<and> fle (radiusX (ellipse (OnMouseMove 0 30 MK_LBUTTON
            (OnLButtonDown 10 10 MK_LBUTTON created_window)))) (Fin 0)
   \<and> fle (Fin 0) (radiusY (ellipse (OnMouseMove 0 30 MK_LBUTTON
            (OnLButtonDown 10 10 MK_LBUTTON created_window))))"
proof -
  let ?p = "OnLButtonDown 10 10 MK_LBUTTON created_window"
  have a: "scaleX created_window = Fin 1" "scaleY created_window = Fin 1"
    by (simp_all add: created_window_def initial_def)
  have anchor: "ptMouse ?p = Point2F (Fin 10) (Fin 10)"
    by (simp add: OnLButtonDown_fields PixelsToDips_def a f32_arith)
  have dips: "PixelsToDips ?p 0 30 = Point2F (Fin 0) (Fin 30)"
    by (simp add: PixelsToDips_def OnLButtonDown_fields a f32_arith)
  have fin: "is_fin (ptx (PixelsToDips ?p 0 30))" "is_fin (ptx (ptMouse ?p))"
    "is_fin (pty (PixelsToDips ?p 0 30))" "is_fin (pty (ptMouse ?p))"
    by (simp_all add: anchor dips)
  have ord: "fle (ptx (PixelsToDips ?p 0 30)) (ptx (ptMouse ?p))"
    "fle (pty (ptMouse ?p)) (pty (PixelsToDips ?p 0 30))"
    by (simp_all add: anchor dips fle_def)
  note t = radii_are_signed_half_deltas [OF MK_LBUTTON_held fin]
  from t ord have r: "fle (radiusX (ellipse (OnMouseMove 0 30 MK_LBUTTON ?p))) (Fin 0)"
    "fle (Fin 0) (radiusY (ellipse (OnMouseMove 0 30 MK_LBUTTON ?p)))"
    by blast+
  from MK_LBUTTON_held fin ord r show ?thesis
    by (simp only: simp_thms)
qed

text \<open>
  C6. For every pixel position and every pair of scale factors, a press sets the drag
  anchor and the centre of the shape to the same point, whose coordinates are the
  single-precision quotients \<open>pixelX / scaleX\<close> and \<open>pixelY / scaleY\<close>, and sets both radii
  to 1. With positive finite scale factors and pixel coordinates below \<open>2 ^ 24\<close> in
  magnitude (every coordinate a mouse message can carry), each coordinate is the exact
  quotient rounded once to single precision; with scale 1 it is the pixel coordinate
  itself; and a press at pixel (100, 100) with scale 1 gives the centre (100, 100) and
  radii 1.
\<close>

theorem press_sets_anchor_and_center:
  "ptMouse (OnLButtonDown pixelX pixelY flags s) =
     Point2F (fdiv (int_to_float pixelX) (scaleX s)) (fdiv (int_to_float pixelY) (scaleY s))
   \<and> point (ellipse (OnLButtonDown pixelX pixelY flags s)) =
       ptMouse (OnLButtonDown pixelX pixelY flags s)
   \<and> radiusX (ellipse (OnLButtonDown pixelX pixelY flags s)) = Fin 1
   \<and> radiusY (ellipse (OnLButtonDown pixelX pixelY flags s)) = Fin 1
   \<and> (\<forall>cx cy. scaleX s = Fin cx \<and> 0 < cx \<and> scaleY s = Fin cy \<and> 0 < cy
         \<and> \<bar>pixelX\<bar> < 2 ^ 24 \<and> \<bar>pixelY\<bar> < 2 ^ 24 \<longrightarrow>
         ptMouse (OnLButtonDown pixelX pixelY flags s) =
           Point2F (round32 (of_int pixelX / cx)) (round32 (of_int pixelY / cy)))
   \<and> (scaleX s = Fin 1 \<and> scaleY s = Fin 1 \<and> \<bar>pixelX\<bar> < 2 ^ 24 \<and> \<bar>pixelY\<bar> < 2 ^ 24 \<longrightarrow>
         ptMouse (OnLButtonDown pixelX pixelY flags s) =
           Point2F (Fin (of_int pixelX)) (Fin (of_int pixelY)))
   \<and> (scaleX s = Fin 1 \<and> scaleY s = Fin 1 \<longrightarrow>
         ptMouse (OnLButtonDown 100 100 flags s) = Point2F (Fin 100) (Fin 100)
         \<and> ellipse (OnLButtonDown 100 100 flags s) =
             Ellipse (Point2F (Fin 100) (Fin 100)) (Fin 1) (Fin 1))"
proof -
  let ?s' = "OnLButtonDown pixelX pixelY flags s"
  have anchor: "ptMouse ?s' =
      Point2F (fdiv (int_to_float pixelX) (scaleX s)) (fdiv (int_to_float pixelY) (scaleY s))"
    by (simp add: OnLButtonDown_fields PixelsToDips_def)
  have centre: "point (ellipse ?s') = ptMouse ?s'"
    and radii: "radiusX (ellipse ?s') = Fin 1" "radiusY (ellipse ?s') = Fin 1"
    by (simp_all add: OnLButtonDown_fields)
  have rounded: "ptMouse ?s' = Point2F (round32 (of_int pixelX / cx)) (round32 (of_int pixelY / cy))"
    if "scaleX s = Fin cx \<and> 0 < cx \<and> scaleY s = Fin cy \<and> 0 < cy
        \<and> \<bar>pixelX\<bar> < 2 ^ 24 \<and> \<bar>pixelY\<bar> < 2 ^ 24" for cx cy
    using that by (simp only: anchor fdiv_int_by_pos)
  have exact: "ptMouse ?s' = Point2F (Fin (of_int pixelX)) (Fin (of_int pixelY))"
    if "scaleX s = Fin 1 \<and> scaleY s = Fin 1 \<and> \<bar>pixelX\<bar> < 2 ^ 24 \<and> \<bar>pixelY\<bar> < 2 ^ 24"
    using that by (simp only: anchor fdiv_int_by_one)
  have hundred: "ptMouse (OnLButtonDown 100 100 flags s) = Point2F (Fin 100) (Fin 100)
      \<and> ellipse (OnLButtonDown 100 100 flags s) =
          Ellipse (Point2F (Fin 100) (Fin 100)) (Fin 1) (Fin 1)"
    if "scaleX s = Fin 1 \<and> scaleY s = Fin 1"
    using that fdiv_int_by_one [of 100]
    by (simp add: OnLButtonDown_fields PixelsToDips_def)
  from anchor centre radii rounded exact hundred show ?thesis
    by blast
qed

theorem press_sets_anchor_and_center_witness:
  "scaleX created_window = Fin 1 \<and> (0 :: rat) < 1 \<and> scaleY created_window = Fin 1
   \<and> \<bar>100 :: int\<bar> < 2 ^ 24
   \<and> ptMouse (OnLButtonDown 100 100 MK_LBUTTON created_window) = Point2F (Fin 100) (Fin 100)
   \<and> point (ellipse (OnLButtonDown 100 100 MK_LBUTTON created_window)) = Point2F (Fin 100) (Fin 100)
   \<and> radiusX (ellipse (OnLButtonDown 100 100 MK_LBUTTON created_window)) = Fin 1
   \<and> radiusY (ellipse (OnLButtonDown 100 100 MK_LBUTTON created_window)) = Fin 1"
proof -
  have a: "scaleX created_window = Fin 1" "scaleY created_window = Fin 1"
    by (simp_all add: created_window_def initial_def)
  have b: "(0 :: rat) < 1" "\<bar>100 :: int\<bar> < 2 ^ 24"
    by simp_all
  note t = press_sets_anchor_and_center [of 100 100 MK_LBUTTON created_window]
  from t a have c: "ptMouse (OnLButtonDown 100 100 MK_LBUTTON created_window) =
      Point2F (Fin 100) (Fin 100)"
    by blast
  from t have d: "point (ellipse (OnLButtonDown 100 100 MK_LBUTTON created_window)) =
      ptMouse (OnLButtonDown 100 100 MK_LBUTTON created_window)"
    "radiusX (ellipse (OnLButtonDown 100 100 MK_LBUTTON created_window)) = Fin 1"
    "radiusY (ellipse (OnLButtonDown 100 100 MK_LBUTTON created_window)) = Fin 1"
    by blast+
  from a b c d show ?thesis
    by (simp only: simp_thms)
qed

text \<open>
  C7. With scale 1, a press at pixel (0, 0) followed by a move to pixel (50, 50) with the
  primary button held gives the shape with centre (25, 25) and both radii 25.
\<close>

theorem press_origin_move_50:
  assumes "scaleX s = Fin 1" "scaleY s = Fin 1" "flags' AND MK_LBUTTON \<noteq> 0"
  shows "ellipse (OnMouseMove 50 50 flags' (OnLButtonDown 0 0 flags s)) =
           Ellipse (Point2F (Fin 25) (Fin 25)) (Fin 25) (Fin 25)"
proof -
  let ?p = "OnLButtonDown 0 0 flags s"
  have anchor: "ptMouse ?p = Point2F (Fin 0) (Fin 0)"
    by (simp add: OnLButtonDown_fields PixelsToDips_def assms(1,2) f32_arith)
  have dips: "PixelsToDips ?p 50 50 = Point2F (Fin 50) (Fin 50)"
    by (simp add: PixelsToDips_def OnLButtonDown_fields assms(1,2) f32_arith)
  show ?thesis
    by (simp add: OnMouseMove_held(1) [OF assms(3)] anchor dips f32_arith)
qed

theorem press_origin_move_50_witness:
  "scaleX created_window = Fin 1 \<and> scaleY created_window = Fin 1
   \<and> MK_LBUTTON AND MK_LBUTTON \<noteq> 0
   \<and> ellipse (OnMouseMove 50 50 MK_LBUTTON (OnLButtonDown 0 0 MK_LBUTTON created_window)) =
        Ellipse (Point2F (Fin 25) (Fin 25)) (Fin 25) (Fin 25)"
proof -
  have a: "scaleX created_window = Fin 1" "scaleY created_window = Fin 1"
    by (simp_all add: created_window_def initial_def)
  from press_origin_move_50 [OF a MK_LBUTTON_held] a MK_LBUTTON_held
  show ?thesis by simp
qed

text \<open>
  C8. A move delivered while the primary button is not held changes nothing: the state
  after \<^verbatim>\<open>OnMouseMove\<close> is the state before it, so the shape and the drag anchor are as
  they were, and \<^verbatim>\<open>WM_MOUSEMOVE\<close> is answered with 0 in the unchanged state.
\<close>

theorem move_without_button_changes_nothing:
  assumes "flags AND MK_LBUTTON = 0"
  shows "OnMouseMove pixelX pixelY flags s = s
    \<and> ellipse (OnMouseMove pixelX pixelY flags s) = ellipse s
    \<and> ptMouse (OnMouseMove pixelX pixelY flags s) = ptMouse s
    \<and> (ucast wParam = flags \<longrightarrow> HandleMessage WM_MOUSEMOVE wParam lParam h s = Inr (0, s))"
  using assms by (simp add: OnMouseMove_released WM_MOUSEMOVE_result)

theorem move_without_button_changes_nothing_witness:
  "(0 :: DWORD) AND MK_LBUTTON = 0
   \<and> OnMouseMove 50 50 0 created_window = created_window
   \<and> (ucast (0 :: WPARAM) :: DWORD) = 0
   \<and> HandleMessage WM_MOUSEMOVE 0 (MAKELPARAM 50 50) all_ok created_window = Inr (0, created_window)"
  using move_without_button_changes_nothing [of 0 50 50 created_window 0 "MAKELPARAM 50 50" all_ok]
  by simp

subsection \<open>Pointer capture\<close>

text \<open>
  The wording of C4 in the spec, that the capture taken at button-down is also released
  at window teardown, fails: after \<^verbatim>\<open>WM_CREATE\<close>, a button-down and \<^verbatim>\<open>WM_DESTROY\<close>, with no
  button-up in between, the window still holds the capture.
\<close>

theorem capture_kept_at_destroy:
  "\<not> isl (run initial
      [(WM_CREATE, 0, 0, all_ok), (WM_LBUTTONDOWN, 1, MAKELPARAM 10 10, all_ok),
       (WM_DESTROY, 0, 0, all_ok)])
   \<and> captured (projr (run initial
      [(WM_CREATE, 0, 0, all_ok), (WM_LBUTTONDOWN, 1, MAKELPARAM 10 10, all_ok),
       (WM_DESTROY, 0, 0, all_ok)]))"
proof -
  obtain s' where "HandleMessage WM_DESTROY 0 0 all_ok
      (OnLButtonDown (GET_X_LPARAM (MAKELPARAM 10 10)) (GET_Y_LPARAM (MAKELPARAM 10 10)) (ucast (1 :: WPARAM)) created_window) = Inr (0, s')"
    and "captured s'"
    using captured_WM_DESTROY captured_OnLButtonDown by blast
  then show ?thesis
    by (simp add: create_at_96 WM_LBUTTONDOWN_result)
qed

text \<open>
  C4, as amended. The pointer capture is taken at button-down and released at button-up,
  whatever the state. Window teardown (\<^verbatim>\<open>WM_DESTROY\<close>) and the discarding of the graphics
  resources make no \<open>ReleaseCapture\<close> call and leave the capture as it was.
\<close>

theorem capture_released_at_button_up_only:
  "captured (OnLButtonDown pixelX pixelY flags s)
   \<and> \<not> captured (OnLButtonUp s)
   \<and> HandleMessage WM_LBUTTONUP wParam lParam h s = Inr (0, OnLButtonUp s)
   \<and> captured (DiscardGraphicsResources s) = captured s
   \<and> (\<exists>s'. HandleMessage WM_DESTROY wParam lParam h s = Inr (0, s')
         \<and> captured s' = captured s
         \<and> ReleaseCapture \<notin> set (drop (length (calls s)) (calls s')))"
  using captured_WM_DESTROY [of wParam lParam h s]
  by (simp add: captured_OnLButtonDown captured_OnLButtonUp WM_LBUTTONUP_result captured_Discard)

theorem capture_released_at_button_up_only_witness:
  "captured (OnLButtonDown 10 10 MK_LBUTTON created_window)
   \<and> \<not> captured (OnLButtonUp (OnLButtonDown 10 10 MK_LBUTTON created_window))
   \<and> captured (DiscardGraphicsResources (OnLButtonDown 10 10 MK_LBUTTON created_window))"
  using capture_released_at_button_up_only [of 10 10 MK_LBUTTON created_window 0 0 all_ok]
    capture_released_at_button_up_only
      [of 10 10 MK_LBUTTON "OnLButtonDown 10 10 MK_LBUTTON created_window" 0 0 all_ok]
  by blast

subsection \<open>Painting and discarding\<close>

text \<open>
  C5. Whenever a paint reaches \<^verbatim>\<open>EndDraw\<close> and \<^verbatim>\<open>EndDraw\<close> reports a lost device or any other
  failure, the paint releases the render target and the brush, so that both are absent
  afterwards and the next paint asks for a new render target; the failure is not passed
  on (\<^verbatim>\<open>WM_PAINT\<close> is answered with 0); and the frame is drawn once, not retried: the paint
  makes exactly the calls listed, with one \<open>BeginDraw\<close> and one \<open>EndDraw\<close>.
\<close>

theorem OnPaint_end_frame_failure_discards:
  assumes "CreateGraphicsResources h s = Inr (hr, s1)" and "SUCCEEDED hr"
    and "FAILED (enddraw_hr h) \<or> enddraw_hr h = D2DERR_RECREATE_TARGET"
  shows "\<exists>rt s'. pRenderTarget s1 = Some rt
           \<and> OnPaint h s = Inr s'
           \<and> HandleMessage WM_PAINT wParam lParam h s = Inr (0, s')
           \<and> pRenderTarget s' = None \<and> pBrush s' = None
           \<and> calls s' = calls s1 @ [BeginPaint, BeginDraw rt, Clear rt,
                  FillEllipse rt (ellipse s) (pBrush s1), EndDraw rt]
                @ snd (SafeRelease (pRenderTarget s1)) @ snd (SafeRelease (pBrush s1)) @ [EndPaint]
           \<and> (\<forall>h' f. pFactory s' = Some f \<longrightarrow>
                 (\<exists>hr' s2. CreateGraphicsResources h' s' = Inr (hr', s2)
                     \<and> pRenderTarget s2 = created (target_hr h') (target_obj h')))"
proof -
  from CreateGraphicsResources_success [OF assms(1,2)]
  obtain rt where rt: "pRenderTarget s1 = Some rt" by auto
  from CreateGraphicsResources_frame [OF assms(1)]
  have fr: "ellipse s1 = ellipse s" by simp
  define s' where "s' = emit EndPaint (DiscardGraphicsResources
    (emit (EndDraw rt) (emit (FillEllipse rt (ellipse s) (pBrush s1))
      (emit (Clear rt) (emit (BeginDraw rt) (emit BeginPaint s1))))))"
  have paint: "OnPaint h s = Inr s'"
    using assms rt fr by (simp add: OnPaint_def Let_def s'_def)
  have msg: "HandleMessage WM_PAINT wParam lParam h s = Inr (0, s')"
    by (simp add: HandleMessage_def WM_defs paint)
  have none: "pRenderTarget s' = None" "pBrush s' = None"
    by (simp_all add: s'_def)
  have log: "calls s' = calls s1 @ [BeginPaint, BeginDraw rt, Clear rt,
      FillEllipse rt (ellipse s) (pBrush s1), EndDraw rt]
      @ snd (SafeRelease (pRenderTarget s1)) @ snd (SafeRelease (pBrush s1)) @ [EndPaint]"
    by (simp add: s'_def)
  have again: "\<exists>hr' s2. CreateGraphicsResources h' s' = Inr (hr', s2)
      \<and> pRenderTarget s2 = created (target_hr h') (target_obj h')"
    if "pFactory s' = Some f" for h' f
    using none(1) that by (rule CreateGraphicsResources_absent)
  from rt paint msg none log again show ?thesis by blast
qed

theorem OnPaint_end_frame_failure_discards_witness:
  "CreateGraphicsResources device_lost (created_window\<lparr>pRenderTarget := Some 2, pBrush := Some 3\<rparr>)
     = Inr (S_OK, created_window\<lparr>pRenderTarget := Some 2, pBrush := Some 3\<rparr>)
   \<and> SUCCEEDED S_OK
   \<and> FAILED (enddraw_hr device_lost)
   \<and> (\<exists>s'. OnPaint device_lost (created_window\<lparr>pRenderTarget := Some 2, pBrush := Some 3\<rparr>) = Inr s'
          \<and> HandleMessage WM_PAINT 0 0 device_lost
               (created_window\<lparr>pRenderTarget := Some 2, pBrush := Some 3\<rparr>) = Inr (0, s')
          \<and> pRenderTarget s' = None \<and> pBrush s' = None
          \<and> calls s' = [D2D1CreateFactory, GetDpiForWindow, BeginPaint, BeginDraw 2, Clear 2,
               FillEllipse 2 (ellipse initial) (Some 3), EndDraw 2, Release 2, Release 3, EndPaint])"
proof -
  let ?s = "created_window\<lparr>pRenderTarget := Some 2, pBrush := Some 3\<rparr>"
  have a: "CreateGraphicsResources device_lost ?s = Inr (S_OK, ?s)"
    by (simp add: CreateGraphicsResources_present)
  have b: "SUCCEEDED S_OK"
    by (simp add: hresult_values)
  have c: "FAILED (enddraw_hr device_lost)"
    by (simp add: device_lost_def hresult_values)
  then have c': "FAILED (enddraw_hr device_lost) \<or> enddraw_hr device_lost = D2DERR_RECREATE_TARGET"
    by simp
  from OnPaint_end_frame_failure_discards [OF a b c', of 0 0]
  show ?thesis
    using a b c
    by (auto simp: created_window_def initial_def SafeRelease_def)
qed

text \<open>
  C9. \<^verbatim>\<open>DiscardGraphicsResources\<close> is idempotent: from any state it leaves the render
  target and the brush absent; a second call right after it changes nothing and leaves
  them absent again; and a call in a state where both are already absent changes
  nothing.
\<close>

theorem DiscardGraphicsResources_idempotent:
  "pRenderTarget (DiscardGraphicsResources s) = None
   \<and> pBrush (DiscardGraphicsResources s) = None
   \<and> DiscardGraphicsResources (DiscardGraphicsResources s) = DiscardGraphicsResources s
   \<and> pRenderTarget (DiscardGraphicsResources (DiscardGraphicsResources s)) = None
   \<and> pBrush (DiscardGraphicsResources (DiscardGraphicsResources s)) = None
   \<and> (pRenderTarget s = None \<and> pBrush s = None \<longrightarrow> DiscardGraphicsResources s = s)"
  by (simp add: Discard_idem Discard_absent)

theorem DiscardGraphicsResources_idempotent_witness:
  "pRenderTarget created_window = None \<and> pBrush created_window = None
   \<and> DiscardGraphicsResources created_window = created_window
   \<and> pRenderTarget (DiscardGraphicsResources
         (created_window\<lparr>pRenderTarget := Some 2, pBrush := Some 3\<rparr>)) = None
   \<and> pBrush (DiscardGraphicsResources
         (created_window\<lparr>pRenderTarget := Some 2, pBrush := Some 3\<rparr>)) = None
   \<and> DiscardGraphicsResources (DiscardGraphicsResources
         (created_window\<lparr>pRenderTarget := Some 2, pBrush := Some 3\<rparr>)) =
       DiscardGraphicsResources (created_window\<lparr>pRenderTarget := Some 2, pBrush := Some 3\<rparr>)"
proof -
  have a: "pRenderTarget created_window = None" "pBrush created_window = None"
    by (simp_all add: created_window_def initial_def)
  from DiscardGraphicsResources_idempotent [of created_window] a
  have b: "DiscardGraphicsResources created_window = created_window"
    by blast
  from a b
    DiscardGraphicsResources_idempotent
      [of "created_window\<lparr>pRenderTarget := Some 2, pBrush := Some 3\<rparr>"]
  show ?thesis
    by blast
qed

subsection \<open>The scale factors\<close>

text \<open>
  C10. The two scale factors are equal in every state the program reaches: both are 1
  before \<^verbatim>\<open>DPIScale::Initialize\<close>, which sets both to the window's DPI divided by 96, and no
  other code writes them. They are equal as values and under \<^verbatim>\<open>==\<close> (neither is a NaN),
  so the conversion from pixels divides both coordinates by the same factor.
\<close>

theorem scale_factors_equal:
  "scaleX initial = Fin 1 \<and> scaleY initial = Fin 1
   \<and> scaleX (Initialize h s) = fdiv (uint_to_float (window_dpi h)) (Fin 96)
   \<and> scaleY (Initialize h s) = fdiv (uint_to_float (window_dpi h)) (Fin 96)
   \<and> (\<forall>ms s'. run initial ms = Inr s' \<longrightarrow>
         scaleX s' = scaleY s' \<and> feq (scaleX s') (scaleY s')
         \<and> (\<forall>px py. PixelsToDips s' px py =
               Point2F (fdiv (int_to_float px) (scaleX s')) (fdiv (int_to_float py) (scaleX s'))))"
proof -
  have init: "scaleX initial = Fin 1" "scaleY initial = Fin 1"
    by (simp_all add: initial_def)
  have inv: "scaleX s' = scaleY s' \<and> feq (scaleX s') (scaleY s')
      \<and> (\<forall>px py. PixelsToDips s' px py =
            Point2F (fdiv (int_to_float px) (scaleX s')) (fdiv (int_to_float py) (scaleX s')))"
    if "run initial ms = Inr s'" for ms s'
  proof -
    have "scaleX initial = scaleY initial" and "scaleX initial \<noteq> NaN"
      by (simp_all add: init)
    from scale_invariant_run [OF that this]
    have eq: "scaleX s' = scaleY s'" and ok: "scaleX s' \<noteq> NaN"
      by blast+
    from ok have "feq (scaleX s') (scaleX s')"
      by (rule feq_refl)
    with eq show ?thesis
      by (simp add: PixelsToDips_def)
  qed
  have dpi: "scaleX (Initialize h s) = fdiv (uint_to_float (window_dpi h)) (Fin 96)"
    "scaleY (Initialize h s) = fdiv (uint_to_float (window_dpi h)) (Fin 96)"
    by (simp_all add: Initialize_scales)
  from init dpi inv show ?thesis
    by blast
qed

theorem scale_factors_equal_witness:
  "run initial [(WM_CREATE, 0, 0, all_ok\<lparr>window_dpi := 144\<rparr>)] =
     Inr (created_window\<lparr>scaleX := Fin (3 / 2), scaleY := Fin (3 / 2)\<rparr>)
   \<and> scaleX (created_window\<lparr>scaleX := Fin (3 / 2), scaleY := Fin (3 / 2)\<rparr>)
       = scaleY (created_window\<lparr>scaleX := Fin (3 / 2), scaleY := Fin (3 / 2)\<rparr>)
   \<and> feq (scaleX (created_window\<lparr>scaleX := Fin (3 / 2), scaleY := Fin (3 / 2)\<rparr>))
         (scaleY (created_window\<lparr>scaleX := Fin (3 / 2), scaleY := Fin (3 / 2)\<rparr>))"
proof -
  let ?s = "created_window\<lparr>scaleX := Fin (3 / 2), scaleY := Fin (3 / 2)\<rparr>"
  have dpi: "uint_to_float 144 = Fin 144"
    using round32_of_int [of 144] by (simp add: uint_to_float_def)
  have q: "round32 (3 / 2) = Fin (3 / 2)"
    by (simp add: round32_def binade.simps pow2_def rne_def Let_def)
  have scale: "fdiv (Fin 144) (Fin 96) = Fin (3 / 2)"
    by (simp add: fdiv_pos_finite q)
  have step: "HandleMessage WM_CREATE 0 0 (all_ok\<lparr>window_dpi := 144\<rparr>) initial = Inr (0, ?s)"
    by (simp add: HandleMessage_def WM_defs all_ok_def initial_def created_window_def created_def
        hresult_values Initialize_def Let_def emit_def dpi scale)
  then have r: "run initial [(WM_CREATE, 0, 0, all_ok\<lparr>window_dpi := 144\<rparr>)] = Inr ?s"
    by simp
  from scale_factors_equal [of all_ok initial] r
  have "scaleX ?s = scaleY ?s \<and> feq (scaleX ?s) (scaleY ?s)"
    by blast
  with r show ?thesis
    by blast
qed

end
